theory Spec2Isabelle
  imports Complex_Main "HOL-Library.Sublist"
begin

section \<open>Credential resolver: contexts/SecretsContext.tsx\<close>

text \<open>
  A JavaScript value of type \<open>string | undefined\<close> is a \<open>string option\<close>, \<open>None\<close> being
  \<open>undefined\<close>. Such a value is truthy when it is a string that is not empty.
\<close>

definition truthy_str :: "string option \<Rightarrow> bool" where
  "truthy_str v = (case v of None \<Rightarrow> False | Some s \<Rightarrow> s \<noteq> [])"

text \<open>
  The three places \<open>getEnvValue\<close> reads. \<open>process.env\<close> is an object of strings.
  \<open>import.meta.env\<close> and \<open>window._env_\<close> may be missing altogether (\<open>None\<close>): the source
  guards both reads (\<open>typeof import.meta !== 'undefined' && import.meta.env\<close>,
  \<open>typeof window !== 'undefined' && window._env_\<close>). \<open>process.env\<close> is read unguarded, so the
  model takes it as given, which is what the bundler's replacement of \<open>process.env\<close> provides.
\<close>

record environment =
  process_env :: "string \<rightharpoonup> string"
  import_meta_env :: "(string \<rightharpoonup> string) option"
  window_env :: "(string \<rightharpoonup> string) option"

definition read_guarded :: "(string \<rightharpoonup> string) option \<Rightarrow> string \<Rightarrow> string option" where
  "read_guarded obj key = (case obj of None \<Rightarrow> None | Some m \<Rightarrow> m key)"

definition getEnvValue :: "environment \<Rightarrow> string \<Rightarrow> string option" where
  "getEnvValue env key =
     (if truthy_str (process_env env key) then process_env env key
      else if truthy_str (read_guarded (import_meta_env env) key)
           then read_guarded (import_meta_env env) key
      else if truthy_str (read_guarded (window_env env) key)
           then read_guarded (window_env env) key
      else None)"

definition pidKeys :: "string list" where
  "pidKeys = [''GCP_PROJECT_ID'', ''VITE_GCP_PROJECT_ID'', ''REACT_APP_GCP_PROJECT_ID'']"

definition tokenKeys :: "string list" where
  "tokenKeys = [''GCP_ACCESS_TOKEN'', ''VITE_GCP_ACCESS_TOKEN'', ''REACT_APP_GCP_ACCESS_TOKEN'']"

text \<open>
  The two \<open>for (const key of ...)\<close> loops have the same body: read the key, and on a truthy
  value keep it and \<open>break\<close>. The result is the loop's \<open>foundPid\<close> (or \<open>foundToken\<close>),
  \<open>undefined\<close> when no key gave a value.
\<close>

fun scanKeys :: "environment \<Rightarrow> string list \<Rightarrow> string option" where
  "scanKeys env [] = None"
| "scanKeys env (key # keys) =
     (let val = getEnvValue env key
      in if truthy_str val then val else scanKeys env keys)"

text \<open>
  The provider's state: the three \<open>useState\<close> cells and the browser's session storage.
\<close>

record secrets =
  projectId :: string
  accessToken :: string
  isEnvManaged :: bool
  sessionStorage :: "string \<rightharpoonup> string"

definition initial_secrets :: "(string \<rightharpoonup> string) \<Rightarrow> secrets" where
  "initial_secrets storage =
     \<lparr>projectId = [], accessToken = [], isEnvManaged = False, sessionStorage = storage\<rparr>"

text \<open>\<open>loadFromEnv\<close> returns its boolean together with the state it leaves.\<close>

definition loadFromEnv :: "environment \<Rightarrow> secrets \<Rightarrow> bool \<times> secrets" where
  "loadFromEnv env st =
     (let foundPid = scanKeys env pidKeys;
          foundToken = scanKeys env tokenKeys
      in if truthy_str foundPid \<and> truthy_str foundToken
         then (True,
               st\<lparr>projectId := the foundPid,
                  accessToken := the foundToken,
                  sessionStorage := (sessionStorage st)
                     (''gcp_project_id'' \<mapsto> the foundPid, ''gcp_access_token'' \<mapsto> the foundToken),
                  isEnvManaged := True\<rparr>)
         else (False, st))"

text \<open>The mount effect: the environment first, session storage as the fallback.\<close>

definition initialize :: "environment \<Rightarrow> secrets \<Rightarrow> secrets" where
  "initialize env st =
     (let (loaded, st1) = loadFromEnv env st
      in if loaded then st1
         else
           (let storedProject = sessionStorage st1 ''gcp_project_id'';
                storedToken = sessionStorage st1 ''gcp_access_token'';
                st2 = (if truthy_str storedProject then st1\<lparr>projectId := the storedProject\<rparr> else st1)
            in if truthy_str storedToken then st2\<lparr>accessToken := the storedToken\<rparr> else st2))"

definition setSecrets :: "string \<Rightarrow> string \<Rightarrow> secrets \<Rightarrow> secrets" where
  "setSecrets pid token st =
     st\<lparr>projectId := pid,
        accessToken := token,
        sessionStorage := (sessionStorage st)
           (''gcp_project_id'' \<mapsto> pid, ''gcp_access_token'' \<mapsto> token),
        isEnvManaged := False\<rparr>"

definition clearSecrets :: "secrets \<Rightarrow> secrets" where
  "clearSecrets st =
     st\<lparr>projectId := [],
        accessToken := [],
        isEnvManaged := False,
        sessionStorage := ((sessionStorage st)(''gcp_project_id'' := None))
           (''gcp_access_token'' := None)\<rparr>"

definition hasSecrets :: "secrets \<Rightarrow> bool" where
  "hasSecrets st = (projectId st \<noteq> [] \<and> accessToken st \<noteq> [])"

text \<open>
  What the environment-variable sources alone (\<open>process.env\<close>, then \<open>import.meta.env\<close>) give
  for a key: the first two steps of \<open>getEnvValue\<close>, without the injected global.
\<close>

definition envVarValue :: "environment \<Rightarrow> string \<Rightarrow> string option" where
  "envVarValue env key =
     (if truthy_str (process_env env key) then process_env env key
      else if truthy_str (read_guarded (import_meta_env env) key)
           then read_guarded (import_meta_env env) key
      else None)"

section \<open>JavaScript values read by services/geminiService.ts\<close>

text \<open>
  The service reads data typed \<open>any\<close>: the result of \<open>response.json()\<close> and of
  \<open>JSON.parse\<close>. Such data is a JSON value. An object is the list of its own properties;
  where a name occurs twice the first binding is the property's value. A number is carried
  as a real: the code only tests whether it is zero.
\<close>

datatype json =
    JNull
  | JBool bool
  | JNum real
  | JStr string
  | JArr "json list"
  | JObj "(string \<times> json) list"

text \<open>A value in flight is a JSON value or \<open>undefined\<close> (\<open>None\<close>).\<close>

type_synonym jsval = "json option"

text \<open>
  JavaScript truthiness, which decides \<open>if (v)\<close>, \<open>!v\<close> and \<open>a || b\<close>: \<open>undefined\<close>, \<open>null\<close>,
  \<open>false\<close>, \<open>0\<close> and the empty string are falsy, everything else (every array and object
  too) is truthy.
\<close>

fun truthy :: "jsval \<Rightarrow> bool" where
  "truthy None = False"
| "truthy (Some JNull) = False"
| "truthy (Some (JBool b)) = b"
| "truthy (Some (JNum x)) = (x \<noteq> 0)"
| "truthy (Some (JStr s)) = (s \<noteq> [])"
| "truthy (Some (JArr xs)) = True"
| "truthy (Some (JObj kvs)) = True"

text \<open>\<open>a || b\<close>: the left operand when it is truthy, the right one otherwise.\<close>

definition or_js :: "jsval \<Rightarrow> jsval \<Rightarrow> jsval" where
  "or_js a b = (if truthy a then a else b)"

text \<open>
  \<open>v.name\<close> on a value that is neither \<open>null\<close> nor \<open>undefined\<close>: an object gives its own
  property, or \<open>undefined\<close>; a boolean, number, string or array gives \<open>undefined\<close> for every
  name the mapping of one entry reads (\<open>textPayload\<close>, \<open>jsonPayload\<close>, \<open>resource\<close>,
  \<open>labels\<close>, \<open>module_id\<close>, \<open>service_name\<close>, \<open>cluster_name\<close>, \<open>type\<close>, \<open>timestamp\<close>,
  \<open>severity\<close>, \<open>trace\<close>), none of which is a prototype member.
\<close>

fun get_prop :: "json \<Rightarrow> string \<Rightarrow> jsval" where
  "get_prop (JObj kvs) name = map_of kvs name"
| "get_prop v name = None"

text \<open>\<open>v?.name\<close>: \<open>undefined\<close> when \<open>v\<close> is \<open>null\<close> or \<open>undefined\<close>, the property otherwise.\<close>

fun opt_prop :: "jsval \<Rightarrow> string \<Rightarrow> jsval" where
  "opt_prop None name = None"
| "opt_prop (Some JNull) name = None"
| "opt_prop (Some v) name = get_prop v name"

datatype js_error =
    Error string
  | TypeError
  | SyntaxError

section \<open>Log entries: types.ts\<close>

text \<open>
  \<open>LogEntry\<close> as the object literal of \<open>fetchGCPLogs\<close> builds it. TypeScript's field types
  are not checked at run time, so each field holds whatever value the expression gave.
\<close>

record LogEntry =
  timestamp :: jsval
  severity :: jsval
  service :: jsval
  message :: jsval
  traceId :: jsval

definition Severity :: "string list" where
  "Severity = [''DEBUG'', ''INFO'', ''NOTICE'', ''WARNING'', ''ERROR'', ''CRITICAL'',
               ''ALERT'', ''EMERGENCY'']"

definition is_Severity :: "jsval \<Rightarrow> bool" where
  "is_Severity v = (case v of Some (JStr s) \<Rightarrow> s \<in> set Severity | _ \<Rightarrow> False)"

definition is_js_string :: "jsval \<Rightarrow> bool" where
  "is_js_string v = (case v of Some (JStr s) \<Rightarrow> True | _ \<Rightarrow> False)"

section \<open>fetchGCPLogs\<close>

text \<open>
  The callback of \<open>data.entries.map\<close>. Reading \<open>entry.textPayload\<close> of a \<open>null\<close> entry
  throws a TypeError; every other entry gives a \<open>LogEntry\<close>. \<open>stringify\<close> is the run time's
  \<open>JSON.stringify\<close>.
\<close>

definition toLogEntry :: "(json \<Rightarrow> string) \<Rightarrow> json \<Rightarrow> js_error + LogEntry" where
  "toLogEntry stringify entry =
     (if entry = JNull then Inl TypeError
      else
        (let message0 = Some (JStr ''No message content'');
             message1 =
               (if truthy (get_prop entry ''textPayload'') then get_prop entry ''textPayload''
                else if truthy (get_prop entry ''jsonPayload'')
                     then Some (JStr (stringify (the (get_prop entry ''jsonPayload''))))
                else message0);
             service1 =
               or_js (opt_prop (opt_prop (get_prop entry ''resource'') ''labels'') ''module_id'')
              (or_js (opt_prop (opt_prop (get_prop entry ''resource'') ''labels'') ''service_name'')
              (or_js (opt_prop (opt_prop (get_prop entry ''resource'') ''labels'') ''cluster_name'')
              (or_js (opt_prop (get_prop entry ''resource'') ''type'')
                     (Some (JStr ''gcp-service'')))))
         in Inr \<lparr>timestamp = get_prop entry ''timestamp'',
                 severity = or_js (get_prop entry ''severity'') (Some (JStr ''INFO'')),
                 service = service1,
                 message = message1,
                 traceId = get_prop entry ''trace''\<rparr>))"

text \<open>\<open>Array.prototype.map\<close> with a callback that may throw: the first throw ends the call.\<close>

fun map_entries :: "(json \<Rightarrow> string) \<Rightarrow> json list \<Rightarrow> js_error + LogEntry list" where
  "map_entries stringify [] = Inr []"
| "map_entries stringify (entry # entries) =
     (case toLogEntry stringify entry of
        Inl e \<Rightarrow> Inl e
      | Inr x \<Rightarrow>
          (case map_entries stringify entries of
             Inl e \<Rightarrow> Inl e
           | Inr xs \<Rightarrow> Inr (x # xs)))"

text \<open>
  The HTTP exchange. A response has its status, the text \<open>response.text()\<close> resolves to, and
  the value \<open>response.json()\<close> resolves to (\<open>None\<close> when the body is not JSON and the promise
  rejects). \<open>response.ok\<close> is the Fetch API's: the status is in the range 200 to 299.
\<close>

record http_request =
  url :: string
  http_method :: string
  headers :: "(string \<times> string) list"
  body :: string

record http_response =
  status :: nat
  text_body :: string
  json_body :: "json option"

datatype http_outcome =
    Rejected js_error
  | Responded http_response

definition ok :: "http_response \<Rightarrow> bool" where
  "ok response = (200 \<le> status response \<and> status response \<le> 299)"

text \<open>A number in a template literal: its decimal digits.\<close>

fun show_nat :: "nat \<Rightarrow> string" where
  "show_nat n =
     (if n < 10 then [''0123456789'' ! n]
      else show_nat (n div 10) @ [''0123456789'' ! (n mod 10)])"

declare show_nat.simps [simp del]

definition entries_request :: "(json \<Rightarrow> string) \<Rightarrow> string \<Rightarrow> string \<Rightarrow> http_request" where
  "entries_request stringify pid token =
     \<lparr>url = ''https://logging.googleapis.com/v2/entries:list'',
      http_method = ''POST'',
      headers = [(''Authorization'', ''Bearer '' @ token),
                 (''Content-Type'', ''application/json'')],
      body = stringify (JObj [(''resourceNames'', JArr [JStr (''projects/'' @ pid)]),
                              (''orderBy'', JStr ''timestamp desc''),
                              (''pageSize'', JNum 50)])\<rparr>"

text \<open>
  \<open>fetchGCPLogs\<close>, with the network as a function from the request to what came back. The
  \<open>catch\<close> block logs and rethrows, so an error passes through unchanged. \<open>data.entries\<close>
  throws a TypeError when \<open>data\<close> is \<open>null\<close>; when \<open>data\<close> is an array it is the built-in
  \<open>Array.prototype.entries\<close>, a truthy function without a \<open>map\<close>, and the call of
  \<open>undefined\<close> throws a TypeError as well. A truthy \<open>data.entries\<close> that is not an array has
  no callable \<open>map\<close> either.
\<close>

definition fetchGCPLogs ::
  "(json \<Rightarrow> string) \<Rightarrow> (http_request \<Rightarrow> http_outcome) \<Rightarrow> string \<Rightarrow> string
     \<Rightarrow> js_error + LogEntry list" where
  "fetchGCPLogs stringify net pid token =
     (case net (entries_request stringify pid token) of
        Rejected e \<Rightarrow> Inl e
      | Responded response \<Rightarrow>
          if \<not> ok response
          then Inl (Error (''GCP API Error ('' @ show_nat (status response) @ ''): ''
                            @ text_body response))
          else
            (case json_body response of
               None \<Rightarrow> Inl SyntaxError
             | Some JNull \<Rightarrow> Inl TypeError
             | Some (JArr xs) \<Rightarrow> Inl TypeError
             | Some data \<Rightarrow>
                 if \<not> truthy (get_prop data ''entries'') then Inr []
                 else
                   (case get_prop data ''entries'' of
                      Some (JArr entries) \<Rightarrow> map_entries stringify entries
                    | _ \<Rightarrow> Inl TypeError)))"

section \<open>The calls to the generative model\<close>

text \<open>
  A request to \<open>ai.models.generateContent\<close>: the model's name, the prompt, and the
  configuration with the response schema. The client (and its API key) is the function
  \<open>ai\<close> from the request to \<open>response.text\<close>, a string or \<open>undefined\<close>, or to the error the call
  rejects with. \<open>parse\<close> is the run time's \<open>JSON.parse\<close>, \<open>None\<close> where it throws.
\<close>

datatype schema =
    SString "string option"
  | SNumber "string option"
  | SArray schema "string option"
  | SObject "(string \<times> schema) list" "string list"

record gen_config =
  responseMimeType :: string
  responseSchema :: schema

record gen_request =
  model :: string
  contents :: string
  config :: "gen_config option"

definition nl :: string where
  "nl = [CHR 0x0A]"

definition parseLogs_request :: "string \<Rightarrow> gen_request" where
  "parseLogs_request rawLogs =
     \<lparr>model = ''gemini-2.5-flash'',
      contents = concat
        [nl, ''      Parse the following raw log text into a structured JSON array.'',
         nl, ''      Extract the timestamp (convert to ISO string), severity (uppercase), service name, and the log message.'',
         nl, ''      If severity is missing, infer it from the message (default to INFO).'',
         nl, ''      '',
         nl, ''      Raw Logs:'',
         nl, ''      '', rawLogs,
         nl, ''    ''],
      config = Some
        \<lparr>responseMimeType = ''application/json'',
         responseSchema = SArray
           (SObject [(''timestamp'', SString None), (''severity'', SString None),
                     (''service'', SString None), (''message'', SString None)]
                    [''timestamp'', ''severity'', ''service'', ''message''])
           None\<rparr>\<rparr>"

definition parseLogs ::
  "(string \<Rightarrow> json option) \<Rightarrow> (gen_request \<Rightarrow> js_error + string option) \<Rightarrow> string
     \<Rightarrow> js_error + json" where
  "parseLogs parse ai rawLogs =
     (case ai (parseLogs_request rawLogs) of
        Inl e \<Rightarrow> Inl e
      | Inr text \<Rightarrow>
          if \<not> truthy_str text then Inr (JArr [])
          else
            (case parse (the text) of
               Some data \<Rightarrow> Inr data
             | None \<Rightarrow> Inr (JArr [])))"

text \<open>
  \<open>generateReport\<close> serializes \<open>logs.slice(0, 100)\<close>; \<open>stringify\<close> is \<open>JSON.stringify\<close> on
  an array of entries, whatever the entries are.
\<close>

definition generateReport_request :: "('e list \<Rightarrow> string) \<Rightarrow> 'e list \<Rightarrow> gen_request" where
  "generateReport_request stringify logs =
     (let logContext = stringify (take 100 logs)
      in \<lparr>model = ''gemini-2.5-flash'',
          contents = concat
            [nl, ''      Analyze these structured logs and provide a system health report.'',
             nl, ''      '',
             nl, ''      Logs:'',
             nl, ''      '', logContext,
             nl, ''    ''],
          config = Some
            \<lparr>responseMimeType = ''application/json'',
             responseSchema = SObject
               [(''overview'', SString (Some ''A brief paragraph summarizing the system state.'')),
                (''criticalIssues'', SArray (SString None)
                    (Some ''List of critical errors or patterns detected.'')),
                (''recommendations'', SArray (SString None)
                    (Some ''Actionable steps to resolve issues.''))]
               [''overview'', ''criticalIssues'', ''recommendations'']\<rparr>\<rparr>)"

definition summary :: "string \<Rightarrow> json" where
  "summary overview =
     JObj [(''overview'', JStr overview), (''criticalIssues'', JArr []),
           (''recommendations'', JArr [])]"

definition generateReport ::
  "('e list \<Rightarrow> string) \<Rightarrow> (string \<Rightarrow> json option) \<Rightarrow> (gen_request \<Rightarrow> js_error + string option)
     \<Rightarrow> 'e list \<Rightarrow> js_error + json" where
  "generateReport stringify parse ai logs =
     (case ai (generateReport_request stringify logs) of
        Inl e \<Rightarrow> Inl e
      | Inr text \<Rightarrow>
          if \<not> truthy_str text then Inr (summary ''Could not generate report.'')
          else
            (case parse (the text) of
               Some data \<Rightarrow> Inr data
             | None \<Rightarrow> Inr (summary ''Error parsing AI response.'')))"

datatype ProjectScale = hobby | startup | enterprise

text \<open>The euro sign of the prompts, as its UTF-8 bytes.\<close>

definition euro :: string where
  "euro = [CHR 0xE2, CHR 0x82, CHR 0xAC]"

fun promptContext :: "ProjectScale \<Rightarrow> string" where
  "promptContext hobby = concat
     [nl, ''      This is a small personal/developer project (like a free tier or minimal usage setup). '',
      nl, ''      Total monthly costs should be very low (e.g., between '', euro, ''0.00 and '', euro, ''10.00).'',
      nl, ''      Services should be things like Cloud Run (low invocation), Cloud Storage (small), or free tier Compute Engine.'',
      nl, ''      Currency should be EUR ('', euro, '').'',
      nl, ''      FinOps score should be high (4-5) as waste is low.'',
      nl, ''    '']"
| "promptContext startup = concat
     [nl, ''      This is a startup production environment. '',
      nl, ''      Total monthly costs should be moderate (e.g., '', euro, ''100 - '', euro, ''500).'',
      nl, ''      Stack includes Managed SQL, Load Balancers, and a few VMs.'',
      nl, ''      Currency EUR ('', euro, '').'',
      nl, ''    '']"
| "promptContext enterprise = concat
     [nl, ''      This is a large enterprise environment.'',
      nl, ''      Total monthly costs are high ('', euro, ''2,000+).'',
      nl, ''      Complex stack with GKE, Dataflow, BigQuery.'',
      nl, ''      Currency EUR ('', euro, '').'',
      nl, ''    '']"

definition generateCostReport_request :: "string \<Rightarrow> ProjectScale \<Rightarrow> gen_request" where
  "generateCostReport_request pid scale =
     \<lparr>model = ''gemini-2.5-flash'',
      contents = concat
        [nl, ''      Generate a simulated monthly cost report for Google Cloud Project '', [CHR 0x22], pid, [CHR 0x22], ''.'',
         nl, ''      '', promptContext scale,
         nl, ''      '',
         nl, ''      Requirements:'',
         nl, ''      1. Create daily cost data for the last 14 days. For '', [CHR 0x27], ''hobby'', [CHR 0x27], '', these should be tiny amounts (e.g. 0.01, 0.05).'',
         nl, ''      2. Create a service breakdown.'',
         nl, ''      3. Provide a '', [CHR 0x27], ''finOpsScore'', [CHR 0x27], '' from 0 (poor) to 5 (excellent).'',
         nl, ''      4. Provide AI analysis and optimization tips relevant to this scale.'',
         nl, ''    ''],
      config = Some
        \<lparr>responseMimeType = ''application/json'',
         responseSchema = SObject
           [(''totalMonthToDate'', SNumber None),
            (''projectedEndOfMonth'', SNumber None),
            (''dailyTrend'', SArray
               (SObject [(''date'', SString None), (''cost'', SNumber None),
                         (''currency'', SString None)] [])
               None),
            (''serviceBreakdown'', SArray
               (SObject [(''service'', SString None), (''cost'', SNumber None)] [])
               None),
            (''aiAnalysis'', SString None),
            (''optimizationTips'', SArray (SString None) None),
            (''finOpsScore'', SNumber (Some ''Score from 0 to 5 reflecting cost efficiency''))]
           [''totalMonthToDate'', ''projectedEndOfMonth'', ''dailyTrend'', ''serviceBreakdown'',
            ''aiAnalysis'', ''optimizationTips'']\<rparr>\<rparr>"

text \<open>
  \<open>generateCostReport\<close>: the scale defaults to \<open>hobby\<close> when the caller passes none. An
  empty \<open>response.text\<close> is answered with a thrown \<open>Error\<close>, and \<open>JSON.parse\<close> is called
  outside any \<open>try\<close>, so its SyntaxError leaves the function.
\<close>

definition generateCostReport ::
  "(string \<Rightarrow> json option) \<Rightarrow> (gen_request \<Rightarrow> js_error + string option) \<Rightarrow> string
     \<Rightarrow> ProjectScale option \<Rightarrow> js_error + json" where
  "generateCostReport parse ai pid scale =
     (case ai (generateCostReport_request pid (case scale of None \<Rightarrow> hobby | Some s \<Rightarrow> s)) of
        Inl e \<Rightarrow> Inl e
      | Inr text \<Rightarrow>
          if \<not> truthy_str text then Inl (Error ''Failed to generate cost report'')
          else
            (case parse (the text) of
               Some data \<Rightarrow> Inr data
             | None \<Rightarrow> Inl SyntaxError))"


section \<open>Example inputs\<close>

text \<open>Both credentials under the unprefixed names of \<open>process.env\<close>.\<close>

definition env_unprefixed :: environment where
  "env_unprefixed =
     \<lparr>process_env = [''GCP_PROJECT_ID'' \<mapsto> ''my-project'', ''GCP_ACCESS_TOKEN'' \<mapsto> ''ya29.token''],
      import_meta_env = None,
      window_env = None\<rparr>"

text \<open>Only a project id, and an access token that is the empty string.\<close>

definition env_pid_only :: environment where
  "env_pid_only =
     \<lparr>process_env = [''GCP_PROJECT_ID'' \<mapsto> ''my-project'', ''GCP_ACCESS_TOKEN'' \<mapsto> []],
      import_meta_env = None,
      window_env = None\<rparr>"

text \<open>
  The project id under the unprefixed name of \<open>process.env\<close>, the token under the Vite
  name of \<open>import.meta.env\<close>.
\<close>

definition env_cross :: environment where
  "env_cross =
     \<lparr>process_env = [''GCP_PROJECT_ID'' \<mapsto> ''my-project''],
      import_meta_env = Some [''VITE_GCP_ACCESS_TOKEN'' \<mapsto> ''ya29.token''],
      window_env = None\<rparr>"

text \<open>
  The project id as an environment variable under the Vite name, and another project id
  in the injected global under the unprefixed name.
\<close>

definition env_window_shadow :: environment where
  "env_window_shadow =
     \<lparr>process_env = [''VITE_GCP_PROJECT_ID'' \<mapsto> ''from-env'', ''GCP_ACCESS_TOKEN'' \<mapsto> ''ya29.token''],
      import_meta_env = None,
      window_env = Some [''GCP_PROJECT_ID'' \<mapsto> ''from-window'']\<rparr>"

definition prior_secrets :: secrets where
  "prior_secrets =
     \<lparr>projectId = ''old-project'', accessToken = ''old-token'', isEnvManaged = False,
      sessionStorage = [''gcp_project_id'' \<mapsto> ''old-project'']\<rparr>"

text \<open>
  The precedence as the specification words it: the injected global is consulted only when
  the environment variables gave nothing under any of the names.
\<close>

fun scanWith :: "(string \<Rightarrow> string option) \<Rightarrow> string list \<Rightarrow> string option" where
  "scanWith source [] = None"
| "scanWith source (key # keys) =
     (if truthy_str (source key) then source key else scanWith source keys)"

definition strict_precedence_scan :: "environment \<Rightarrow> string list \<Rightarrow> string option" where
  "strict_precedence_scan env keys =
     (if truthy_str (scanWith (envVarValue env) keys) then scanWith (envVarValue env) keys
      else scanWith (read_guarded (window_env env)) keys)"

text \<open>
  The service name and the message as the specification words them: the first candidate
  that is present (neither \<open>undefined\<close> nor \<open>null\<close>) is taken, whatever its value.
\<close>

definition present :: "jsval \<Rightarrow> bool" where
  "present v = (v \<noteq> None \<and> v \<noteq> Some JNull)"

fun first_present :: "jsval list \<Rightarrow> jsval \<Rightarrow> jsval" where
  "first_present [] fallback = fallback"
| "first_present (v # vs) fallback = (if present v then v else first_present vs fallback)"

fun first_truthy :: "jsval list \<Rightarrow> jsval \<Rightarrow> jsval" where
  "first_truthy [] fallback = fallback"
| "first_truthy (v # vs) fallback = (if truthy v then v else first_truthy vs fallback)"

definition service_candidates :: "json \<Rightarrow> jsval list" where
  "service_candidates entry =
     [opt_prop (opt_prop (get_prop entry ''resource'') ''labels'') ''module_id'',
      opt_prop (opt_prop (get_prop entry ''resource'') ''labels'') ''service_name'',
      opt_prop (opt_prop (get_prop entry ''resource'') ''labels'') ''cluster_name'',
      opt_prop (get_prop entry ''resource'') ''type'']"

definition claimed_service :: "json \<Rightarrow> jsval" where
  "claimed_service entry = first_present (service_candidates entry) (Some (JStr ''gcp-service''))"

definition claimed_message :: "(json \<Rightarrow> string) \<Rightarrow> json \<Rightarrow> jsval" where
  "claimed_message stringify entry =
     (if present (get_prop entry ''textPayload'') then get_prop entry ''textPayload''
      else if present (get_prop entry ''jsonPayload'')
           then Some (JStr (stringify (the (get_prop entry ''jsonPayload''))))
      else Some (JStr ''no message content''))"

text \<open>
  \<open>JSON.stringify\<close> and \<open>JSON.parse\<close> on the values the examples use. Outside them the
  functions below are arbitrary; no example depends on that.
\<close>

definition stringify_sample :: "json \<Rightarrow> string" where
  "stringify_sample v =
     (if v = JObj [(''a'', JNum 1)] then [CHR 0x7B, CHR 0x22] @ ''a'' @ [CHR 0x22] @ '':1}''
      else [])"

definition parse_sample :: "string \<Rightarrow> json option" where
  "parse_sample s = (if s = ''[]'' then Some (JArr []) else None)"

definition entry_json_payload :: json where
  "entry_json_payload = JObj [(''jsonPayload'', JObj [(''a'', JNum 1)])]"

definition entry_gce :: json where
  "entry_gce =
     JObj [(''textPayload'', JStr ''started''),
           (''resource'', JObj [(''type'', JStr ''gce_instance'')])]"

definition entry_empty_module :: json where
  "entry_empty_module =
     JObj [(''resource'',
            JObj [(''labels'', JObj [(''module_id'', JStr []), (''service_name'', JStr ''checkout'')]),
                  (''type'', JStr ''gae_app'')])]"

definition entry_empty_text :: json where
  "entry_empty_text = JObj [(''textPayload'', JStr [])]"

definition entry_default_severity :: json where
  "entry_default_severity =
     JObj [(''textPayload'', JStr ''hello''), (''severity'', JStr ''DEFAULT'')]"

text \<open>
  Example responses of the logging API, each with its body as text and as the JSON value
  the text denotes. \<open>dq\<close> puts a name between double quotes.
\<close>

definition dq :: "string \<Rightarrow> string" where
  "dq s = [CHR 0x22] @ s @ [CHR 0x22]"

definition respond :: "http_response \<Rightarrow> http_request \<Rightarrow> http_outcome" where
  "respond response request = Responded response"

definition response_gce :: http_response where
  "response_gce =
     \<lparr>status = 200,
      text_body = concat [''{'', dq ''entries'', '':[{'', dq ''textPayload'', '':'', dq ''started'',
                          '','', dq ''resource'', '':{'', dq ''type'', '':'', dq ''gce_instance'',
                          ''}}]}''],
      json_body = Some (JObj [(''entries'', JArr [entry_gce])])\<rparr>"

definition response_empty_module :: http_response where
  "response_empty_module =
     \<lparr>status = 200,
      text_body = concat [''{'', dq ''entries'', '':[{'', dq ''resource'', '':{'', dq ''labels'',
                          '':{'', dq ''module_id'', '':'', dq [], '','', dq ''service_name'', '':'',
                          dq ''checkout'', ''},'', dq ''type'', '':'', dq ''gae_app'', ''}}]}''],
      json_body = Some (JObj [(''entries'', JArr [entry_empty_module])])\<rparr>"

definition response_json_payload :: http_response where
  "response_json_payload =
     \<lparr>status = 200,
      text_body = concat [''{'', dq ''entries'', '':[{'', dq ''jsonPayload'', '':{'', dq ''a'',
                          '':1}}]}''],
      json_body = Some (JObj [(''entries'', JArr [entry_json_payload])])\<rparr>"

definition response_empty_text :: http_response where
  "response_empty_text =
     \<lparr>status = 200,
      text_body = concat [''{'', dq ''entries'', '':[{'', dq ''textPayload'', '':'', dq [], ''}]}''],
      json_body = Some (JObj [(''entries'', JArr [entry_empty_text])])\<rparr>"

definition response_default_severity :: http_response where
  "response_default_severity =
     \<lparr>status = 200,
      text_body = concat [''{'', dq ''entries'', '':[{'', dq ''textPayload'', '':'', dq ''hello'',
                          '','', dq ''severity'', '':'', dq ''DEFAULT'', ''}]}''],
      json_body = Some (JObj [(''entries'', JArr [entry_default_severity])])\<rparr>"

definition response_403 :: http_response where
  "response_403 = \<lparr>status = 403, text_body = ''Permission denied'', json_body = None\<rparr>"

definition response_no_entries :: http_response where
  "response_no_entries = \<lparr>status = 200, text_body = ''{}'', json_body = Some (JObj [])\<rparr>"

definition response_zero_entries :: http_response where
  "response_zero_entries =
     \<lparr>status = 200,
      text_body = concat [''{'', dq ''entries'', '':[]}''],
      json_body = Some (JObj [(''entries'', JArr [])])\<rparr>"

text \<open>A model output is malformed when it is empty or \<open>JSON.parse\<close> throws on it.\<close>

definition malformed :: "(string \<Rightarrow> json option) \<Rightarrow> string option \<Rightarrow> bool" where
  "malformed parse text = (\<not> truthy_str text \<or> parse (the text) = None)"

definition entry_error :: json where
  "entry_error =
     JObj [(''timestamp'', JStr ''2024-05-01T12:00:00Z''), (''severity'', JStr ''ERROR''),
           (''textPayload'', JStr ''boom'')]"

definition response_error_entry :: http_response where
  "response_error_entry =
     \<lparr>status = 200,
      text_body = concat [''{'', dq ''entries'', '':[{'', dq ''timestamp'', '':'',
                          dq ''2024-05-01T12:00:00Z'', '','', dq ''severity'', '':'', dq ''ERROR'',
                          '','', dq ''textPayload'', '':'', dq ''boom'', ''}]}''],
      json_body = Some (JObj [(''entries'', JArr [entry_error])])\<rparr>"

text \<open>A model client that answers every request with the same \<open>response.text\<close>.\<close>

definition answer :: "string option \<Rightarrow> gen_request \<Rightarrow> js_error + string option" where
  "answer text request = Inr text"

text \<open>
  \<open>JSON.stringify\<close> on an array of log entries whose fields are strings that need no
  escaping, or \<open>undefined\<close> (such a field is left out).
\<close>

fun join :: "string \<Rightarrow> string list \<Rightarrow> string" where
  "join sep [] = []"
| "join sep [x] = x"
| "join sep (x # y # ys) = x @ sep @ join sep (y # ys)"

definition stringify_field :: "string \<Rightarrow> jsval \<Rightarrow> string list" where
  "stringify_field name v = (case v of Some (JStr s) \<Rightarrow> [dq name @ '':'' @ dq s] | _ \<Rightarrow> [])"

definition stringify_entry :: "LogEntry \<Rightarrow> string" where
  "stringify_entry e =
     ''{'' @ join '',''
       (concat [stringify_field ''timestamp'' (timestamp e),
                stringify_field ''severity'' (severity e),
                stringify_field ''service'' (service e),
                stringify_field ''message'' (message e),
                stringify_field ''traceId'' (traceId e)]) @ ''}''"

definition stringify_entries :: "LogEntry list \<Rightarrow> string" where
  "stringify_entries logs = ''['' @ join '','' (map stringify_entry logs) @ '']''"

definition log_line :: "string \<Rightarrow> LogEntry" where
  "log_line msg =
     \<lparr>timestamp = Some (JStr ''2024-05-01T12:00:00Z''), severity = Some (JStr ''INFO''),
      service = Some (JStr ''backend-api''), message = Some (JStr msg), traceId = None\<rparr>"

section \<open>Properties of the credential resolver\<close>

lemma getEnvValue_truthy: "getEnvValue env key = Some v \<Longrightarrow> v \<noteq> []"
  by (auto simp: getEnvValue_def truthy_str_def split: if_splits option.splits)

lemma truthy_getEnvValue: "truthy_str (getEnvValue env key) = (getEnvValue env key \<noteq> None)"
  using getEnvValue_truthy [of env key]
  by (cases "getEnvValue env key") (auto simp: truthy_str_def)

lemma scanKeys_truthy: "scanKeys env keys = Some v \<Longrightarrow> v \<noteq> []"
  by (induction keys) (auto simp: Let_def truthy_str_def split: if_splits option.splits)

lemma truthy_scanKeys: "truthy_str (scanKeys env keys) = (scanKeys env keys \<noteq> None)"
  using scanKeys_truthy [of env keys]
  by (cases "scanKeys env keys") (auto simp: truthy_str_def)

lemma scanKeys_first_hit:
  assumes "i < length keys"
    and "getEnvValue env (keys ! i) = Some v"
    and "\<forall>j<i. getEnvValue env (keys ! j) = None"
  shows "scanKeys env keys = Some v"
  using assms
proof (induction keys arbitrary: i)
  case Nil
  then show ?case by simp
next
  case (Cons key keys)
  show ?case
  proof (cases i)
    case 0
    with Cons.prems getEnvValue_truthy [of env key v] show ?thesis
      by (simp add: truthy_str_def)
  next
    case (Suc k)
    with Cons.prems have first: "getEnvValue env key = None"
      by auto
    from Suc Cons.prems have "scanKeys env keys = Some v"
      by (intro Cons.IH [of k]) auto
    with first show ?thesis
      by (simp add: truthy_str_def)
  qed
qed

lemma scanKeys_none:
  "scanKeys env keys = None \<longleftrightarrow> (\<forall>key \<in> set keys. getEnvValue env key = None)"
  by (induction keys) (auto simp: Let_def truthy_getEnvValue)

text \<open>
  C1. When the scan finds both a project id and a token, \<open>loadFromEnv\<close> returns true, both
  fields hold exactly the found values, both are written to session storage under
  \<open>gcp_project_id\<close> and \<open>gcp_access_token\<close>, and the environment-managed flag is set. When
  one of the two (or both) is not found it returns false and the state is the one before
  the call.
\<close>

theorem loadFromEnv_both_or_nothing:
  "(scanKeys env pidKeys = Some p \<and> scanKeys env tokenKeys = Some t \<longrightarrow>
      fst (loadFromEnv env st) = True \<and>
      projectId (snd (loadFromEnv env st)) = p \<and>
      accessToken (snd (loadFromEnv env st)) = t \<and>
      sessionStorage (snd (loadFromEnv env st)) ''gcp_project_id'' = Some p \<and>
      sessionStorage (snd (loadFromEnv env st)) ''gcp_access_token'' = Some t \<and>
      (\<forall>k. k \<noteq> ''gcp_project_id'' \<and> k \<noteq> ''gcp_access_token'' \<longrightarrow>
           sessionStorage (snd (loadFromEnv env st)) k = sessionStorage st k) \<and>
      isEnvManaged (snd (loadFromEnv env st)) = True) \<and>
   (scanKeys env pidKeys = None \<or> scanKeys env tokenKeys = None \<longrightarrow>
      loadFromEnv env st = (False, st))"
proof (intro conjI impI)
  assume "scanKeys env pidKeys = None \<or> scanKeys env tokenKeys = None"
  then show "loadFromEnv env st = (False, st)"
    by (auto simp: loadFromEnv_def Let_def truthy_str_def)
next
  assume found: "scanKeys env pidKeys = Some p \<and> scanKeys env tokenKeys = Some t"
  then have "p \<noteq> []" and "t \<noteq> []"
    by (auto dest: scanKeys_truthy)
  with found have run: "loadFromEnv env st =
      (True, st\<lparr>projectId := p, accessToken := t,
                sessionStorage := (sessionStorage st)
                   (''gcp_project_id'' \<mapsto> p, ''gcp_access_token'' \<mapsto> t),
                isEnvManaged := True\<rparr>)"
    by (simp add: loadFromEnv_def Let_def truthy_str_def)
  show "fst (loadFromEnv env st) = True" by (simp add: run)
  show "projectId (snd (loadFromEnv env st)) = p" by (simp add: run)
  show "accessToken (snd (loadFromEnv env st)) = t" by (simp add: run)
  show "sessionStorage (snd (loadFromEnv env st)) ''gcp_project_id'' = Some p" by (simp add: run)
  show "sessionStorage (snd (loadFromEnv env st)) ''gcp_access_token'' = Some t" by (simp add: run)
  show "isEnvManaged (snd (loadFromEnv env st)) = True" by (simp add: run)
  show "\<forall>k. k \<noteq> ''gcp_project_id'' \<and> k \<noteq> ''gcp_access_token'' \<longrightarrow>
           sessionStorage (snd (loadFromEnv env st)) k = sessionStorage st k"
    by (simp add: run)
qed

theorem loadFromEnv_both_or_nothing_witness:
  "scanKeys env_unprefixed pidKeys = Some ''my-project'' \<and>
   scanKeys env_unprefixed tokenKeys = Some ''ya29.token'' \<and>
   fst (loadFromEnv env_unprefixed prior_secrets) = True \<and>
   projectId (snd (loadFromEnv env_unprefixed prior_secrets)) = ''my-project'' \<and>
   accessToken (snd (loadFromEnv env_unprefixed prior_secrets)) = ''ya29.token'' \<and>
   sessionStorage (snd (loadFromEnv env_unprefixed prior_secrets)) ''gcp_project_id''
     = Some ''my-project'' \<and>
   sessionStorage (snd (loadFromEnv env_unprefixed prior_secrets)) ''gcp_access_token''
     = Some ''ya29.token'' \<and>
   isEnvManaged (snd (loadFromEnv env_unprefixed prior_secrets)) = True \<and>
   scanKeys env_pid_only tokenKeys = None \<and>
   loadFromEnv env_pid_only prior_secrets = (False, prior_secrets)"
proof -
  have pid: "scanKeys env_unprefixed pidKeys = Some ''my-project''"
    by (simp add: env_unprefixed_def pidKeys_def getEnvValue_def truthy_str_def)
  have tok: "scanKeys env_unprefixed tokenKeys = Some ''ya29.token''"
    by (simp add: env_unprefixed_def tokenKeys_def getEnvValue_def truthy_str_def)
  have none: "scanKeys env_pid_only tokenKeys = None"
    by (simp add: env_pid_only_def tokenKeys_def getEnvValue_def truthy_str_def
        read_guarded_def)
  show ?thesis
    using pid tok none
      loadFromEnv_both_or_nothing
        [of env_unprefixed "''my-project''" "''ya29.token''" prior_secrets]
      loadFromEnv_both_or_nothing
        [of env_pid_only "''my-project''" "''ya29.token''" prior_secrets]
    by simp
qed

text \<open>
  C6. The project-id keys and the token keys are scanned separately, each in the order
  unprefixed, Vite, React, each stopping at its first key with a value. So when the first
  project-id hit is under one convention and the first token hit under another, the two
  values are combined and \<open>loadFromEnv\<close> reports success.
\<close>

theorem loadFromEnv_cross_convention:
  assumes "i < length pidKeys"
    and "getEnvValue env (pidKeys ! i) = Some p"
    and "\<forall>i'<i. getEnvValue env (pidKeys ! i') = None"
    and "j < length tokenKeys"
    and "getEnvValue env (tokenKeys ! j) = Some t"
    and "\<forall>j'<j. getEnvValue env (tokenKeys ! j') = None"
  shows "scanKeys env pidKeys = Some p \<and> scanKeys env tokenKeys = Some t \<and>
         loadFromEnv env st =
           (True, st\<lparr>projectId := p, accessToken := t,
                     sessionStorage := (sessionStorage st)
                        (''gcp_project_id'' \<mapsto> p, ''gcp_access_token'' \<mapsto> t),
                     isEnvManaged := True\<rparr>)"
proof -
  have pid: "scanKeys env pidKeys = Some p"
    using assms(1-3) by (rule scanKeys_first_hit)
  have tok: "scanKeys env tokenKeys = Some t"
    using assms(4-6) by (rule scanKeys_first_hit)
  from pid tok have "p \<noteq> []" and "t \<noteq> []"
    by (auto dest: scanKeys_truthy)
  with pid tok show ?thesis
    by (simp add: loadFromEnv_def Let_def truthy_str_def)
qed

theorem loadFromEnv_cross_convention_witness:
  "pidKeys ! 0 = ''GCP_PROJECT_ID'' \<and> tokenKeys ! 1 = ''VITE_GCP_ACCESS_TOKEN'' \<and>
   getEnvValue env_cross ''GCP_PROJECT_ID'' = Some ''my-project'' \<and>
   getEnvValue env_cross ''GCP_ACCESS_TOKEN'' = None \<and>
   getEnvValue env_cross ''VITE_GCP_ACCESS_TOKEN'' = Some ''ya29.token'' \<and>
   loadFromEnv env_cross prior_secrets =
     (True, prior_secrets\<lparr>projectId := ''my-project'', accessToken := ''ya29.token'',
                          sessionStorage := (sessionStorage prior_secrets)
                             (''gcp_project_id'' \<mapsto> ''my-project'',
                              ''gcp_access_token'' \<mapsto> ''ya29.token''),
                          isEnvManaged := True\<rparr>)"
proof -
  have p0: "getEnvValue env_cross (pidKeys ! 0) = Some ''my-project''"
    by (simp add: env_cross_def pidKeys_def getEnvValue_def truthy_str_def)
  have t0: "getEnvValue env_cross (tokenKeys ! 0) = None"
    by (simp add: env_cross_def tokenKeys_def getEnvValue_def truthy_str_def read_guarded_def)
  have t1: "getEnvValue env_cross (tokenKeys ! 1) = Some ''ya29.token''"
    by (simp add: env_cross_def tokenKeys_def getEnvValue_def truthy_str_def read_guarded_def)
  have names: "pidKeys ! 0 = ''GCP_PROJECT_ID''" "tokenKeys ! 0 = ''GCP_ACCESS_TOKEN''"
    "tokenKeys ! 1 = ''VITE_GCP_ACCESS_TOKEN''"
    by (simp_all add: pidKeys_def tokenKeys_def)
  have lens: "0 < length pidKeys" "1 < length tokenKeys"
    by (simp_all add: pidKeys_def tokenKeys_def)
  have before_pid: "\<forall>i'<0. getEnvValue env_cross (pidKeys ! i') = None"
    by simp
  have before_tok: "\<forall>j'<1. getEnvValue env_cross (tokenKeys ! j') = None"
    using t0 by simp
  show ?thesis
    using loadFromEnv_cross_convention
      [of 0 env_cross "''my-project''" 1 "''ya29.token''" prior_secrets,
       OF lens(1) p0 before_pid lens(2) t1 before_tok]
      p0 t0 t1 names
    by simp
qed

text \<open>
  C7, as the code has it. The precedence is strict per key, not per step. For one key, the
  injected global \<open>window._env_\<close> is read only when neither \<open>process.env\<close> nor
  \<open>import.meta.env\<close> has a non-empty value for that same key, and a value the environment
  variables give for the key is the one returned for it. The keys are tried in their order,
  each against all three sources: the scan resolves the value of the first key for which
  any source has a value, and resolves nothing when no key has one. So a value of
  \<open>window._env_\<close> under an earlier key is resolved before an environment variable under a
  later key.
\<close>

theorem getEnvValue_precedence_is_per_key:
  "(envVarValue env key \<noteq> None \<longrightarrow> getEnvValue env key = envVarValue env key) \<and>
   (envVarValue env key = None \<longrightarrow>
      getEnvValue env key =
        (if truthy_str (read_guarded (window_env env) key)
         then read_guarded (window_env env) key else None)) \<and>
   (i < length keys \<and> (\<forall>j<i. getEnvValue env (keys ! j) = None) \<and>
    getEnvValue env (keys ! i) = Some v \<longrightarrow>
      scanKeys env keys = Some v) \<and>
   ((\<forall>j<length keys. getEnvValue env (keys ! j) = None) \<longrightarrow> scanKeys env keys = None) \<and>
   (i < k \<and> k < length keys \<and> (\<forall>j<i. getEnvValue env (keys ! j) = None) \<and>
    envVarValue env (keys ! i) = None \<and>
    read_guarded (window_env env) (keys ! i) = Some v \<and> v \<noteq> [] \<and>
    envVarValue env (keys ! k) = Some w \<longrightarrow>
      scanKeys env keys = Some v)"
proof (intro conjI impI)
  show "getEnvValue env key = envVarValue env key" if "envVarValue env key \<noteq> None"
    using that
    by (auto simp: getEnvValue_def envVarValue_def truthy_str_def split: option.splits)
next
  show "getEnvValue env key =
        (if truthy_str (read_guarded (window_env env) key)
         then read_guarded (window_env env) key else None)"
    if "envVarValue env key = None"
    using that
    by (auto simp: getEnvValue_def envVarValue_def truthy_str_def
        split: option.splits if_splits)
next
  assume "i < length keys \<and> (\<forall>j<i. getEnvValue env (keys ! j) = None) \<and>
    getEnvValue env (keys ! i) = Some v"
  then show "scanKeys env keys = Some v"
    by (intro scanKeys_first_hit [of i keys env v]) simp_all
next
  assume "\<forall>j<length keys. getEnvValue env (keys ! j) = None"
  then have "\<forall>key \<in> set keys. getEnvValue env key = None"
    by (auto simp: in_set_conv_nth)
  then show "scanKeys env keys = None"
    by (simp add: scanKeys_none)
next
  assume hyps: "i < k \<and> k < length keys \<and> (\<forall>j<i. getEnvValue env (keys ! j) = None) \<and>
    envVarValue env (keys ! i) = None \<and>
    read_guarded (window_env env) (keys ! i) = Some v \<and> v \<noteq> [] \<and>
    envVarValue env (keys ! k) = Some w"
  then have "getEnvValue env (keys ! i) = Some v"
    by (auto simp: getEnvValue_def envVarValue_def truthy_str_def split: if_splits)
  with hyps show "scanKeys env keys = Some v"
    by (intro scanKeys_first_hit [of i keys env v]) simp_all
qed

theorem getEnvValue_precedence_is_per_key_witness:
  "pidKeys ! 0 = ''GCP_PROJECT_ID'' \<and> pidKeys ! 1 = ''VITE_GCP_PROJECT_ID'' \<and>
   envVarValue env_window_shadow ''VITE_GCP_PROJECT_ID'' = Some ''from-env'' \<and>
   getEnvValue env_window_shadow ''VITE_GCP_PROJECT_ID'' = Some ''from-env'' \<and>
   envVarValue env_window_shadow ''GCP_PROJECT_ID'' = None \<and>
   read_guarded (window_env env_window_shadow) ''GCP_PROJECT_ID'' = Some ''from-window'' \<and>
   getEnvValue env_window_shadow ''GCP_PROJECT_ID'' = Some ''from-window'' \<and>
   scanKeys env_window_shadow pidKeys = Some ''from-window'' \<and>
   scanKeys env_window_shadow [''REACT_APP_GCP_PROJECT_ID''] = None"
proof -
  have names: "pidKeys ! 0 = ''GCP_PROJECT_ID''" "pidKeys ! 1 = ''VITE_GCP_PROJECT_ID''"
    "(0::nat) < 1" "1 < length pidKeys"
    by (simp_all add: pidKeys_def)
  have a: "envVarValue env_window_shadow ''VITE_GCP_PROJECT_ID'' = Some ''from-env''"
    by (simp add: env_window_shadow_def envVarValue_def truthy_str_def)
  have b: "envVarValue env_window_shadow ''GCP_PROJECT_ID'' = None"
    by (simp add: env_window_shadow_def envVarValue_def truthy_str_def read_guarded_def)
  have c: "read_guarded (window_env env_window_shadow) ''GCP_PROJECT_ID'' = Some ''from-window''"
    by (simp add: env_window_shadow_def read_guarded_def)
  have d: "getEnvValue env_window_shadow ''REACT_APP_GCP_PROJECT_ID'' = None"
    by (simp add: env_window_shadow_def getEnvValue_def truthy_str_def read_guarded_def)
  have per_key_env: "getEnvValue env_window_shadow ''VITE_GCP_PROJECT_ID'' = Some ''from-env''"
    using a getEnvValue_precedence_is_per_key
      [of env_window_shadow "''VITE_GCP_PROJECT_ID''" 0 "[]" "''from-window''" 0 "''from-env''"]
    by simp
  have per_key_window: "getEnvValue env_window_shadow ''GCP_PROJECT_ID'' = Some ''from-window''"
    using b c getEnvValue_precedence_is_per_key
      [of env_window_shadow "''GCP_PROJECT_ID''" 0 "[]" "''from-window''" 0 "''from-env''"]
    by (simp add: truthy_str_def)
  have across: "scanKeys env_window_shadow pidKeys = Some ''from-window''"
    using names a b c getEnvValue_precedence_is_per_key
      [of env_window_shadow "''GCP_PROJECT_ID''" 0 pidKeys "''from-window''" 1 "''from-env''"]
    by simp
  have all_none: "\<forall>j<length [''REACT_APP_GCP_PROJECT_ID''].
      getEnvValue env_window_shadow ([''REACT_APP_GCP_PROJECT_ID''] ! j) = None"
    using d by simp
  have none_found: "scanKeys env_window_shadow [''REACT_APP_GCP_PROJECT_ID''] = None"
    using all_none getEnvValue_precedence_is_per_key
      [of env_window_shadow "''GCP_PROJECT_ID''" 0 "[''REACT_APP_GCP_PROJECT_ID'']"
          "''from-window''" 0 "''from-env''"]
    by blast
  show ?thesis
    by (intro conjI names(1,2) a per_key_env b c per_key_window across none_found)
qed

text \<open>
  C7, as the claim words it, fails: \<open>process.env\<close> supplies a project id under the Vite
  name, yet the project id resolved is the one of \<open>window._env_\<close>, found first under the
  unprefixed name. A scan that asked every environment variable before the injected global
  would have resolved the environment variable's value.
\<close>

theorem window_env_wins_over_later_convention:
  "envVarValue env_window_shadow ''VITE_GCP_PROJECT_ID'' = Some ''from-env'' \<and>
   read_guarded (window_env env_window_shadow) ''GCP_PROJECT_ID'' = Some ''from-window'' \<and>
   strict_precedence_scan env_window_shadow pidKeys = Some ''from-env'' \<and>
   scanKeys env_window_shadow pidKeys = Some ''from-window'' \<and>
   fst (loadFromEnv env_window_shadow prior_secrets) = True \<and>
   projectId (snd (loadFromEnv env_window_shadow prior_secrets)) = ''from-window''"
  by (simp add: env_window_shadow_def envVarValue_def read_guarded_def
      strict_precedence_scan_def pidKeys_def tokenKeys_def getEnvValue_def truthy_str_def
      loadFromEnv_def Let_def)

text \<open>
  C9. From every prior state, also the one a successful environment load leaves,
  \<open>setSecrets\<close> overwrites both fields with its arguments, writes both to session storage
  and clears the environment-managed flag.
\<close>

theorem setSecrets_overwrites:
  "projectId (setSecrets pid token st) = pid \<and>
   accessToken (setSecrets pid token st) = token \<and>
   sessionStorage (setSecrets pid token st) ''gcp_project_id'' = Some pid \<and>
   sessionStorage (setSecrets pid token st) ''gcp_access_token'' = Some token \<and>
   isEnvManaged (setSecrets pid token st) = False \<and>
   isEnvManaged (setSecrets pid token (snd (loadFromEnv env st))) = False \<and>
   projectId (setSecrets pid token (snd (loadFromEnv env st))) = pid \<and>
   accessToken (setSecrets pid token (snd (loadFromEnv env st))) = token"
  by (simp add: setSecrets_def)

section \<open>Properties of the log normalizer\<close>

lemma toLogEntry_fields:
  assumes "toLogEntry S entry = Inr out"
  shows "entry \<noteq> JNull"
    and "timestamp out = get_prop entry ''timestamp''"
    and "severity out = or_js (get_prop entry ''severity'') (Some (JStr ''INFO''))"
    and "service out = first_truthy (service_candidates entry) (Some (JStr ''gcp-service''))"
    and "message out =
           (if truthy (get_prop entry ''textPayload'') then get_prop entry ''textPayload''
            else if truthy (get_prop entry ''jsonPayload'')
                 then Some (JStr (S (the (get_prop entry ''jsonPayload''))))
            else Some (JStr ''No message content''))"
    and "traceId out = get_prop entry ''trace''"
  using assms
  by (auto simp: toLogEntry_def Let_def or_js_def service_candidates_def split: if_splits)

lemma toLogEntry_total: "entry \<noteq> JNull \<Longrightarrow> \<exists>out. toLogEntry S entry = Inr out"
  by (simp add: toLogEntry_def Let_def)

lemma map_entries_Inr:
  "map_entries S es = Inr outs \<Longrightarrow>
     length outs = length es \<and> (\<forall>i<length es. toLogEntry S (es ! i) = Inr (outs ! i))"
proof (induction es arbitrary: outs)
  case Nil
  then show ?case by simp
next
  case (Cons e es)
  from Cons.prems obtain x xs where
    head: "toLogEntry S e = Inr x" and tail: "map_entries S es = Inr xs" and outs: "outs = x # xs"
    by (auto split: sum.splits)
  from Cons.IH [OF tail] have len: "length xs = length es"
    and rest: "\<forall>i<length es. toLogEntry S (es ! i) = Inr (xs ! i)"
    by simp_all
  show ?case
  proof (intro conjI allI impI)
    show "length outs = length (e # es)"
      by (simp add: outs len)
  next
    fix i assume "i < length (e # es)"
    then show "toLogEntry S ((e # es) ! i) = Inr (outs ! i)"
      using head rest outs by (cases i) simp_all
  qed
qed

lemma map_entries_total: "JNull \<notin> set es \<Longrightarrow> \<exists>outs. map_entries S es = Inr outs"
proof (induction es)
  case Nil
  then show ?case by simp
next
  case (Cons e es)
  then obtain xs where "map_entries S es = Inr xs"
    by auto
  moreover from Cons.prems obtain x where "toLogEntry S e = Inr x"
    using toLogEntry_total [of e S] by auto
  ultimately show ?case by simp
qed

lemma fetchGCPLogs_maps_entries:
  assumes "net (entries_request S pid token) = Responded r"
    and "ok r"
    and "json_body r = Some (JObj kvs)"
    and "map_of kvs ''entries'' = Some (JArr es)"
    and "JNull \<notin> set es"
  shows "\<exists>outs. fetchGCPLogs S net pid token = Inr outs \<and> length outs = length es \<and>
           (\<forall>i<length es. toLogEntry S (es ! i) = Inr (outs ! i))"
proof -
  have "fetchGCPLogs S net pid token = map_entries S es"
    using assms(1-4) by (simp add: fetchGCPLogs_def)
  moreover obtain outs where "map_entries S es = Inr outs"
    using map_entries_total [OF assms(5)] by blast
  ultimately show ?thesis
    using map_entries_Inr [of S es outs] by auto
qed

lemma truthy_present: "truthy v \<Longrightarrow> present v"
  by (cases v) (auto simp: present_def)

lemma first_truthy_is_first_present:
  "\<forall>v \<in> set vs. present v \<longrightarrow> truthy v \<Longrightarrow> first_truthy vs d = first_present vs d"
  by (induction vs) (auto dest: truthy_present)

text \<open>
  C2, as the code has it. For every entry of a 2xx response that \<open>fetchGCPLogs\<close> maps, the
  service name is the first truthy (for a string: non-empty) value among the labels
  \<open>module_id\<close>, \<open>service_name\<close>, \<open>cluster_name\<close> and the resource \<open>type\<close>, in this order,
  and \<open>gcp-service\<close> when none is truthy. Where every candidate that is present is also
  truthy, this is the first present candidate.
\<close>

theorem fetchGCPLogs_service_name:
  assumes "net (entries_request S pid token) = Responded r"
    and "ok r"
    and "json_body r = Some (JObj kvs)"
    and "map_of kvs ''entries'' = Some (JArr es)"
    and "JNull \<notin> set es"
  shows "\<exists>outs. fetchGCPLogs S net pid token = Inr outs \<and> length outs = length es \<and>
           (\<forall>i<length es.
              service (outs ! i)
                = first_truthy (service_candidates (es ! i)) (Some (JStr ''gcp-service'')) \<and>
              ((\<forall>v \<in> set (service_candidates (es ! i)). present v \<longrightarrow> truthy v) \<longrightarrow>
                 service (outs ! i) = claimed_service (es ! i)))"
proof -
  obtain outs where run: "fetchGCPLogs S net pid token = Inr outs"
    and len: "length outs = length es"
    and each: "\<forall>i<length es. toLogEntry S (es ! i) = Inr (outs ! i)"
    using fetchGCPLogs_maps_entries [where net = net and S = S and pid = pid and token = token, OF assms]
    by blast
  have "service (outs ! i)
          = first_truthy (service_candidates (es ! i)) (Some (JStr ''gcp-service'')) \<and>
        ((\<forall>v \<in> set (service_candidates (es ! i)). present v \<longrightarrow> truthy v) \<longrightarrow>
           service (outs ! i) = claimed_service (es ! i))"
    if "i < length es" for i
  proof -
    from each that have "toLogEntry S (es ! i) = Inr (outs ! i)"
      by simp
    then have "service (outs ! i)
        = first_truthy (service_candidates (es ! i)) (Some (JStr ''gcp-service''))"
      by (rule toLogEntry_fields(4))
    then show ?thesis
      by (simp add: claimed_service_def first_truthy_is_first_present)
  qed
  with run len show ?thesis by blast
qed

theorem fetchGCPLogs_service_name_witness:
  "fetchGCPLogs stringify_sample (respond response_gce) ''my-project'' ''ya29.token''
     = Inr [\<lparr>timestamp = None, severity = Some (JStr ''INFO''),
              service = Some (JStr ''gce_instance''), message = Some (JStr ''started''),
              traceId = None\<rparr>] \<and>
   claimed_service entry_gce = Some (JStr ''gce_instance'')"
proof -
  have net: "respond response_gce (entries_request stringify_sample ''my-project'' ''ya29.token'')
      = Responded response_gce"
    by (simp add: respond_def)
  have ok: "ok response_gce"
    by (simp add: ok_def response_gce_def)
  have body: "json_body response_gce = Some (JObj [(''entries'', JArr [entry_gce])])"
    by (simp add: response_gce_def)
  have entries: "map_of [(''entries'', JArr [entry_gce])] ''entries'' = Some (JArr [entry_gce])"
    by simp
  have nonnull: "JNull \<notin> set [entry_gce]"
    by (simp add: entry_gce_def)
  have cands: "service_candidates entry_gce = [None, None, None, Some (JStr ''gce_instance'')]"
    by (simp add: service_candidates_def entry_gce_def)
  have run: "fetchGCPLogs stringify_sample (respond response_gce) ''my-project'' ''ya29.token''
     = Inr [\<lparr>timestamp = None, severity = Some (JStr ''INFO''),
              service = Some (JStr ''gce_instance''), message = Some (JStr ''started''),
              traceId = None\<rparr>]"
    by (simp add: fetchGCPLogs_def respond_def response_gce_def ok_def entry_gce_def
        toLogEntry_def or_js_def Let_def)
  show ?thesis
    using fetchGCPLogs_service_name
        [where net = "respond response_gce" and S = stringify_sample and pid = "''my-project''"
           and token = "''ya29.token''", OF net ok body entries nonnull]
      run cands
    by (auto simp: present_def)
qed

text \<open>
  C2, as the claim words it, fails on a label that is present and empty: the entry has
  \<open>module_id = ""\<close> and \<open>service_name = "checkout"\<close>; the first present candidate is the
  empty \<open>module_id\<close>, the code's service name is \<open>checkout\<close>.
\<close>

theorem empty_module_id_is_skipped:
  "ok response_empty_module \<and>
   json_body response_empty_module = Some (JObj [(''entries'', JArr [entry_empty_module])]) \<and>
   service_candidates entry_empty_module
     = [Some (JStr []), Some (JStr ''checkout''), None, Some (JStr ''gae_app'')] \<and>
   claimed_service entry_empty_module = Some (JStr []) \<and>
   fetchGCPLogs stringify_sample (respond response_empty_module) ''my-project'' ''ya29.token''
     = Inr [\<lparr>timestamp = None, severity = Some (JStr ''INFO''),
              service = Some (JStr ''checkout''), message = Some (JStr ''No message content''),
              traceId = None\<rparr>]"
  by (simp add: fetchGCPLogs_def respond_def response_empty_module_def ok_def
      entry_empty_module_def toLogEntry_def or_js_def Let_def service_candidates_def
      claimed_service_def present_def)

text \<open>
  C3, as the code has it. For every entry of a 2xx response that \<open>fetchGCPLogs\<close> maps, the
  message is \<open>textPayload\<close> unchanged when \<open>textPayload\<close> is truthy (for a string:
  non-empty); otherwise the serialization of \<open>jsonPayload\<close> when that is truthy; otherwise
  the placeholder \<open>No message content\<close>. The output has one entry per input entry.
\<close>

theorem fetchGCPLogs_message:
  assumes "net (entries_request S pid token) = Responded r"
    and "ok r"
    and "json_body r = Some (JObj kvs)"
    and "map_of kvs ''entries'' = Some (JArr es)"
    and "JNull \<notin> set es"
  shows "\<exists>outs. fetchGCPLogs S net pid token = Inr outs \<and> length outs = length es \<and>
           (\<forall>i<length es.
              (truthy (get_prop (es ! i) ''textPayload'') \<longrightarrow>
                 message (outs ! i) = get_prop (es ! i) ''textPayload'') \<and>
              (\<not> truthy (get_prop (es ! i) ''textPayload'') \<and>
               truthy (get_prop (es ! i) ''jsonPayload'') \<longrightarrow>
                 message (outs ! i) = Some (JStr (S (the (get_prop (es ! i) ''jsonPayload''))))) \<and>
              (\<not> truthy (get_prop (es ! i) ''textPayload'') \<and>
               \<not> truthy (get_prop (es ! i) ''jsonPayload'') \<longrightarrow>
                 message (outs ! i) = Some (JStr ''No message content'')))"
proof -
  obtain outs where run: "fetchGCPLogs S net pid token = Inr outs"
    and len: "length outs = length es"
    and each: "\<forall>i<length es. toLogEntry S (es ! i) = Inr (outs ! i)"
    using fetchGCPLogs_maps_entries [where net = net and S = S and pid = pid and token = token, OF assms]
    by blast
  have "(truthy (get_prop (es ! i) ''textPayload'') \<longrightarrow>
           message (outs ! i) = get_prop (es ! i) ''textPayload'') \<and>
        (\<not> truthy (get_prop (es ! i) ''textPayload'') \<and>
         truthy (get_prop (es ! i) ''jsonPayload'') \<longrightarrow>
           message (outs ! i) = Some (JStr (S (the (get_prop (es ! i) ''jsonPayload''))))) \<and>
        (\<not> truthy (get_prop (es ! i) ''textPayload'') \<and>
         \<not> truthy (get_prop (es ! i) ''jsonPayload'') \<longrightarrow>
           message (outs ! i) = Some (JStr ''No message content''))"
    if "i < length es" for i
  proof -
    from each that have "toLogEntry S (es ! i) = Inr (outs ! i)"
      by simp
    from toLogEntry_fields(5) [OF this] show ?thesis
      by simp
  qed
  with run len show ?thesis by blast
qed

theorem fetchGCPLogs_message_witness:
  "fetchGCPLogs stringify_sample (respond response_json_payload) ''my-project'' ''ya29.token''
     = Inr [\<lparr>timestamp = None, severity = Some (JStr ''INFO''),
              service = Some (JStr ''gcp-service''),
              message = Some (JStr (stringify_sample (JObj [(''a'', JNum 1)]))),
              traceId = None\<rparr>] \<and>
   get_prop entry_json_payload ''textPayload'' = None \<and>
   get_prop entry_json_payload ''jsonPayload'' = Some (JObj [(''a'', JNum 1)])"
proof -
  have net: "respond response_json_payload
      (entries_request stringify_sample ''my-project'' ''ya29.token'')
      = Responded response_json_payload"
    by (simp add: respond_def)
  have ok: "ok response_json_payload"
    by (simp add: ok_def response_json_payload_def)
  have body: "json_body response_json_payload
      = Some (JObj [(''entries'', JArr [entry_json_payload])])"
    by (simp add: response_json_payload_def)
  have entries: "map_of [(''entries'', JArr [entry_json_payload])] ''entries''
      = Some (JArr [entry_json_payload])"
    by simp
  have nonnull: "JNull \<notin> set [entry_json_payload]"
    by (simp add: entry_json_payload_def)
  have run: "fetchGCPLogs stringify_sample (respond response_json_payload) ''my-project''
      ''ya29.token''
     = Inr [\<lparr>timestamp = None, severity = Some (JStr ''INFO''),
              service = Some (JStr ''gcp-service''),
              message = Some (JStr (stringify_sample (JObj [(''a'', JNum 1)]))),
              traceId = None\<rparr>]"
    by (simp add: fetchGCPLogs_def respond_def response_json_payload_def ok_def
        entry_json_payload_def toLogEntry_def or_js_def Let_def)
  show ?thesis
    using fetchGCPLogs_message
        [where net = "respond response_json_payload" and S = stringify_sample
           and pid = "''my-project''" and token = "''ya29.token''",
         OF net ok body entries nonnull]
      run
    by (simp add: entry_json_payload_def)
qed

text \<open>
  C3, as the claim words it, fails on an entry whose \<open>textPayload\<close> is the empty string and
  that has no \<open>jsonPayload\<close>: the claim's message is the \<open>textPayload\<close>, the code's message is
  the placeholder; and the code's placeholder is \<open>No message content\<close>, with a capital,
  not the claim's literal.
\<close>

theorem empty_textPayload_gets_placeholder:
  "ok response_empty_text \<and>
   json_body response_empty_text = Some (JObj [(''entries'', JArr [entry_empty_text])]) \<and>
   get_prop entry_empty_text ''textPayload'' = Some (JStr []) \<and>
   claimed_message stringify_sample entry_empty_text = Some (JStr []) \<and>
   fetchGCPLogs stringify_sample (respond response_empty_text) ''my-project'' ''ya29.token''
     = Inr [\<lparr>timestamp = None, severity = Some (JStr ''INFO''),
              service = Some (JStr ''gcp-service''),
              message = Some (JStr ''No message content''), traceId = None\<rparr>] \<and>
   ''No message content'' \<noteq> ''no message content''"
  by (simp add: fetchGCPLogs_def respond_def response_empty_text_def ok_def
      entry_empty_text_def toLogEntry_def or_js_def Let_def claimed_message_def present_def)

text \<open>
  C4. A response that is not 2xx makes \<open>fetchGCPLogs\<close> throw an \<open>Error\<close> whose message
  holds the status code and the body text; a 2xx response whose JSON object has no
  \<open>entries\<close>, or an empty \<open>entries\<close> array, gives the empty sequence and no error.
\<close>

theorem fetchGCPLogs_failure_is_not_empty:
  "(net (entries_request S pid token) = Responded r \<and> \<not> ok r \<longrightarrow>
      fetchGCPLogs S net pid token
        = Inl (Error (''GCP API Error ('' @ show_nat (status r) @ ''): '' @ text_body r)) \<and>
      (\<exists>msg. fetchGCPLogs S net pid token = Inl (Error msg) \<and>
             sublist (show_nat (status r)) msg \<and> sublist (text_body r) msg)) \<and>
   (net (entries_request S pid token) = Responded r \<and> ok r \<and>
    json_body r = Some (JObj kvs) \<and>
    (map_of kvs ''entries'' = None \<or> map_of kvs ''entries'' = Some (JArr [])) \<longrightarrow>
      fetchGCPLogs S net pid token = Inr [])"
proof (intro conjI impI)
  assume bad: "net (entries_request S pid token) = Responded r \<and> \<not> ok r"
  then show run: "fetchGCPLogs S net pid token
        = Inl (Error (''GCP API Error ('' @ show_nat (status r) @ ''): '' @ text_body r))"
    by (simp add: fetchGCPLogs_def)
  have "sublist (show_nat (status r))
          (''GCP API Error ('' @ show_nat (status r) @ (''): '' @ text_body r))"
    unfolding sublist_def by blast
  moreover have "sublist (text_body r)
          ((''GCP API Error ('' @ show_nat (status r) @ ''): '') @ text_body r @ [])"
    unfolding sublist_def by blast
  ultimately show "\<exists>msg. fetchGCPLogs S net pid token = Inl (Error msg) \<and>
             sublist (show_nat (status r)) msg \<and> sublist (text_body r) msg"
    using run by simp
next
  assume "net (entries_request S pid token) = Responded r \<and> ok r \<and>
    json_body r = Some (JObj kvs) \<and>
    (map_of kvs ''entries'' = None \<or> map_of kvs ''entries'' = Some (JArr []))"
  then show "fetchGCPLogs S net pid token = Inr []"
    by (auto simp: fetchGCPLogs_def)
qed

theorem fetchGCPLogs_failure_is_not_empty_witness:
  "status response_403 = 403 \<and> show_nat 403 = ''403'' \<and>
   fetchGCPLogs stringify_sample (respond response_403) ''my-project'' ''ya29.token''
     = Inl (Error ''GCP API Error (403): Permission denied'') \<and>
   fetchGCPLogs stringify_sample (respond response_no_entries) ''my-project'' ''ya29.token''
     = Inr [] \<and>
   fetchGCPLogs stringify_sample (respond response_zero_entries) ''my-project'' ''ya29.token''
     = Inr []"
proof -
  have digits: "show_nat 403 = ''403''"
    by (simp add: show_nat.simps)
  have denied: "respond response_403 (entries_request stringify_sample ''my-project'' ''ya29.token'')
        = Responded response_403 \<and> \<not> ok response_403"
    by (simp add: respond_def ok_def response_403_def)
  have none: "respond response_no_entries
        (entries_request stringify_sample ''my-project'' ''ya29.token'')
        = Responded response_no_entries \<and> ok response_no_entries \<and>
      json_body response_no_entries = Some (JObj []) \<and>
      (map_of [] ''entries'' = None \<or> map_of [] ''entries'' = Some (JArr []))"
    by (simp add: respond_def ok_def response_no_entries_def)
  have zero: "respond response_zero_entries
        (entries_request stringify_sample ''my-project'' ''ya29.token'')
        = Responded response_zero_entries \<and> ok response_zero_entries \<and>
      json_body response_zero_entries = Some (JObj [(''entries'', JArr [])]) \<and>
      (map_of [(''entries'', JArr [])] ''entries'' = None \<or>
       map_of [(''entries'', JArr [])] ''entries'' = Some (JArr []))"
    by (simp add: respond_def ok_def response_zero_entries_def)
  show ?thesis
    using digits denied none zero
      fetchGCPLogs_failure_is_not_empty
        [where net = "respond response_403" and S = stringify_sample
           and pid = "''my-project''" and token = "''ya29.token''" and r = response_403
           and kvs = "[]"]
      fetchGCPLogs_failure_is_not_empty
        [where net = "respond response_no_entries" and S = stringify_sample
           and pid = "''my-project''" and token = "''ya29.token''" and r = response_no_entries
           and kvs = "[]"]
      fetchGCPLogs_failure_is_not_empty
        [where net = "respond response_zero_entries" and S = stringify_sample
           and pid = "''my-project''" and token = "''ya29.token''" and r = response_zero_entries
           and kvs = "[(''entries'', JArr [])]"]
    by (simp add: response_403_def)
qed

text \<open>
  C5, as the code has it. On a malformed model output (empty text, or text on which
  \<open>JSON.parse\<close> throws) \<open>parseLogs\<close> returns the empty sequence and \<open>generateReport\<close> returns
  a default summary, neither throwing. \<open>generateCostReport\<close> has no such recovery: on an
  empty text it throws the error \<open>Failed to generate cost report\<close>.
\<close>

theorem malformed_output_handling:
  "(ai (parseLogs_request rawLogs) = Inr reply \<and> malformed parse reply \<longrightarrow>
      parseLogs parse ai rawLogs = Inr (JArr [])) \<and>
   (ai (generateReport_request S logs) = Inr reply \<and> malformed parse reply \<longrightarrow>
      generateReport S parse ai logs
        = Inr (summary (if truthy_str reply then ''Error parsing AI response.''
                        else ''Could not generate report.''))) \<and>
   (ai (generateCostReport_request pid (case scale of None \<Rightarrow> hobby | Some s \<Rightarrow> s)) = Inr reply \<and>
    \<not> truthy_str reply \<longrightarrow>
      generateCostReport parse ai pid scale = Inl (Error ''Failed to generate cost report''))"
  by (auto simp: parseLogs_def generateReport_def generateCostReport_def malformed_def)

theorem malformed_output_handling_witness:
  "malformed parse_sample (Some ''not json'') \<and>
   parseLogs parse_sample (answer (Some ''not json'')) ''raw log text'' = Inr (JArr []) \<and>
   generateReport stringify_entries parse_sample (answer (Some ''not json'')) [log_line ''up'']
     = Inr (summary ''Error parsing AI response.'') \<and>
   generateCostReport parse_sample (answer None) ''demo-project'' None
     = Inl (Error ''Failed to generate cost report'')"
proof -
  have bad: "malformed parse_sample (Some ''not json'')"
    by (simp add: malformed_def parse_sample_def)
  have t: "truthy_str (Some ''not json'')" and u: "\<not> truthy_str None"
    by (simp_all add: truthy_str_def)
  show ?thesis
    using bad t u
      malformed_output_handling
        [where ai = "answer (Some ''not json'')" and reply = "Some ''not json''"
           and parse = parse_sample and rawLogs = "''raw log text''"
           and S = stringify_entries and logs = "[log_line ''up'']"
           and pid = "''demo-project''" and scale = None]
      malformed_output_handling
        [where ai = "answer None" and reply = None
           and parse = parse_sample and rawLogs = "''raw log text''"
           and S = stringify_entries and logs = "[log_line ''up'']"
           and pid = "''demo-project''" and scale = None]
    by (simp add: answer_def)
qed

text \<open>
  C5, as the claim words it, fails for the cost report: with an empty model output, and
  with an output that is not JSON, \<open>generateCostReport\<close> throws to its caller.
\<close>

theorem generateCostReport_throws_on_malformed_output:
  "generateCostReport parse_sample (answer (Some [])) ''demo-project'' (Some hobby)
     = Inl (Error ''Failed to generate cost report'') \<and>
   parse_sample ''not json'' = None \<and>
   generateCostReport parse_sample (answer (Some ''not json'')) ''demo-project'' (Some hobby)
     = Inl SyntaxError"
  by (simp add: generateCostReport_def answer_def truthy_str_def parse_sample_def)

text \<open>
  C8, as the code has it. Neither path validates an entry. \<open>fetchGCPLogs\<close> copies the
  entry's \<open>severity\<close> when it is truthy and puts \<open>INFO\<close> otherwise, so the severity of the
  output is one of the eight names exactly when the entry's severity is falsy (absent,
  say) or already one of them; the \<open>timestamp\<close> is the entry's, unchanged. \<open>parseLogs\<close>
  returns the value the model's text parses to, unchanged.
\<close>

theorem normalization_does_not_validate:
  "(net (entries_request S pid token) = Responded r \<and> ok r \<and>
    json_body r = Some (JObj kvs) \<and> map_of kvs ''entries'' = Some (JArr es) \<and>
    JNull \<notin> set es \<longrightarrow>
      (\<exists>outs. fetchGCPLogs S net pid token = Inr outs \<and> length outs = length es \<and>
         (\<forall>i<length es.
            timestamp (outs ! i) = get_prop (es ! i) ''timestamp'' \<and>
            (truthy (get_prop (es ! i) ''severity'') \<longrightarrow>
               severity (outs ! i) = get_prop (es ! i) ''severity'') \<and>
            (\<not> truthy (get_prop (es ! i) ''severity'') \<longrightarrow>
               severity (outs ! i) = Some (JStr ''INFO'')) \<and>
            (is_Severity (severity (outs ! i)) \<longleftrightarrow>
               \<not> truthy (get_prop (es ! i) ''severity'') \<or>
               is_Severity (get_prop (es ! i) ''severity''))))) \<and>
   (ai (parseLogs_request rawLogs) = Inr (Some t) \<and> t \<noteq> [] \<and> parse t = Some data \<longrightarrow>
      parseLogs parse ai rawLogs = Inr data)"
proof (intro conjI impI)
  assume "ai (parseLogs_request rawLogs) = Inr (Some t) \<and> t \<noteq> [] \<and> parse t = Some data"
  then show "parseLogs parse ai rawLogs = Inr data"
    by (simp add: parseLogs_def truthy_str_def)
next
  assume hyps: "net (entries_request S pid token) = Responded r \<and> ok r \<and>
    json_body r = Some (JObj kvs) \<and> map_of kvs ''entries'' = Some (JArr es) \<and>
    JNull \<notin> set es"
  then obtain outs where run: "fetchGCPLogs S net pid token = Inr outs"
    and len: "length outs = length es"
    and each: "\<forall>i<length es. toLogEntry S (es ! i) = Inr (outs ! i)"
    using fetchGCPLogs_maps_entries
      [where net = net and S = S and pid = pid and token = token and r = r and kvs = kvs
         and es = es]
    by blast
  have info: "is_Severity (Some (JStr ''INFO''))"
    by (simp add: is_Severity_def Severity_def)
  have "timestamp (outs ! i) = get_prop (es ! i) ''timestamp'' \<and>
        (truthy (get_prop (es ! i) ''severity'') \<longrightarrow>
           severity (outs ! i) = get_prop (es ! i) ''severity'') \<and>
        (\<not> truthy (get_prop (es ! i) ''severity'') \<longrightarrow>
           severity (outs ! i) = Some (JStr ''INFO'')) \<and>
        (is_Severity (severity (outs ! i)) \<longleftrightarrow>
           \<not> truthy (get_prop (es ! i) ''severity'') \<or>
           is_Severity (get_prop (es ! i) ''severity''))"
    if "i < length es" for i
  proof -
    from each that have entry: "toLogEntry S (es ! i) = Inr (outs ! i)"
      by simp
    show ?thesis
      using toLogEntry_fields(2) [OF entry] toLogEntry_fields(3) [OF entry] info
      by (auto simp: or_js_def)
  qed
  with run len
  show "\<exists>outs. fetchGCPLogs S net pid token = Inr outs \<and> length outs = length es \<and>
         (\<forall>i<length es.
            timestamp (outs ! i) = get_prop (es ! i) ''timestamp'' \<and>
            (truthy (get_prop (es ! i) ''severity'') \<longrightarrow>
               severity (outs ! i) = get_prop (es ! i) ''severity'') \<and>
            (\<not> truthy (get_prop (es ! i) ''severity'') \<longrightarrow>
               severity (outs ! i) = Some (JStr ''INFO'')) \<and>
            (is_Severity (severity (outs ! i)) \<longleftrightarrow>
               \<not> truthy (get_prop (es ! i) ''severity'') \<or>
               is_Severity (get_prop (es ! i) ''severity'')))"
    by blast
qed

theorem normalization_does_not_validate_witness:
  "fetchGCPLogs stringify_sample (respond response_error_entry) ''my-project'' ''ya29.token''
     = Inr [\<lparr>timestamp = Some (JStr ''2024-05-01T12:00:00Z''), severity = Some (JStr ''ERROR''),
              service = Some (JStr ''gcp-service''), message = Some (JStr ''boom''),
              traceId = None\<rparr>] \<and>
   is_Severity (Some (JStr ''ERROR'')) \<and>
   parse_sample ''[]'' = Some (JArr []) \<and>
   parseLogs parse_sample (answer (Some ''[]'')) ''raw log text'' = Inr (JArr [])"
proof -
  have fetch: "respond response_error_entry
        (entries_request stringify_sample ''my-project'' ''ya29.token'')
        = Responded response_error_entry \<and> ok response_error_entry \<and>
      json_body response_error_entry = Some (JObj [(''entries'', JArr [entry_error])]) \<and>
      map_of [(''entries'', JArr [entry_error])] ''entries'' = Some (JArr [entry_error]) \<and>
      JNull \<notin> set [entry_error]"
    by (simp add: respond_def ok_def response_error_entry_def entry_error_def)
  have model: "answer (Some ''[]'') (parseLogs_request ''raw log text'') = Inr (Some ''[]'') \<and>
      ''[]'' \<noteq> [] \<and> parse_sample ''[]'' = Some (JArr [])"
    by (simp add: answer_def parse_sample_def)
  have run: "fetchGCPLogs stringify_sample (respond response_error_entry) ''my-project''
      ''ya29.token''
     = Inr [\<lparr>timestamp = Some (JStr ''2024-05-01T12:00:00Z''), severity = Some (JStr ''ERROR''),
              service = Some (JStr ''gcp-service''), message = Some (JStr ''boom''),
              traceId = None\<rparr>]"
    by (simp add: fetchGCPLogs_def respond_def response_error_entry_def ok_def
        entry_error_def toLogEntry_def or_js_def Let_def)
  have sev: "is_Severity (Some (JStr ''ERROR''))"
    by (simp add: is_Severity_def Severity_def)
  show ?thesis
    using fetch model run sev
      normalization_does_not_validate
        [where net = "respond response_error_entry" and S = stringify_sample
           and pid = "''my-project''" and token = "''ya29.token''"
           and r = response_error_entry and kvs = "[(''entries'', JArr [entry_error])]"
           and es = "[entry_error]" and ai = "answer (Some ''[]'')"
           and rawLogs = "''raw log text''" and t = "''[]''" and parse = parse_sample
           and data = "JArr []"]
    by simp
qed

text \<open>
  C8, as the claim words it, fails: an entry with the severity \<open>DEFAULT\<close> and no timestamp
  is mapped to a \<open>LogEntry\<close> whose severity is none of the eight names and whose timestamp
  is \<open>undefined\<close>, no string at all.
\<close>

theorem default_severity_passes_through:
  "ok response_default_severity \<and>
   json_body response_default_severity
     = Some (JObj [(''entries'', JArr [entry_default_severity])]) \<and>
   fetchGCPLogs stringify_sample (respond response_default_severity) ''my-project''
       ''ya29.token''
     = Inr [\<lparr>timestamp = None, severity = Some (JStr ''DEFAULT''),
              service = Some (JStr ''gcp-service''), message = Some (JStr ''hello''),
              traceId = None\<rparr>] \<and>
   \<not> is_Severity (Some (JStr ''DEFAULT'')) \<and>
   \<not> is_js_string None"
  by (simp add: fetchGCPLogs_def respond_def response_default_severity_def ok_def
      entry_default_severity_def toLogEntry_def or_js_def Let_def is_Severity_def
      Severity_def is_js_string_def)

text \<open>
  C10. \<open>generateReport\<close> builds its request from \<open>logs.slice(0, 100)\<close>: the request, and so
  the result, is the one for the first 100 entries, and two sequences that agree on their
  first 100 entries give the same request and the same result.
\<close>

theorem generateReport_reads_first_100:
  "generateReport_request S logs = generateReport_request S (take 100 logs) \<and>
   generateReport S parse ai logs = generateReport S parse ai (take 100 logs) \<and>
   (take 100 logs' = take 100 logs \<longrightarrow>
      generateReport_request S logs' = generateReport_request S logs \<and>
      generateReport S parse ai logs' = generateReport S parse ai logs)"
  by (simp add: generateReport_request_def generateReport_def)

theorem generateReport_reads_first_100_witness:
  "length (replicate 100 (log_line ''up'') @ [log_line ''down'']) = 101 \<and>
   replicate 100 (log_line ''up'') @ [log_line ''down'']
     \<noteq> replicate 100 (log_line ''up'') @ [log_line ''late''] \<and>
   generateReport_request stringify_entries (replicate 100 (log_line ''up'') @ [log_line ''down''])
     = generateReport_request stringify_entries
         (replicate 100 (log_line ''up'') @ [log_line ''late'']) \<and>
   generateReport stringify_entries parse_sample (answer (Some ''[]''))
       (replicate 100 (log_line ''up'') @ [log_line ''down''])
     = generateReport stringify_entries parse_sample (answer (Some ''[]''))
         (replicate 100 (log_line ''up'') @ [log_line ''late''])"
proof -
  have same: "take 100 (replicate 100 (log_line ''up'') @ [log_line ''down''])
      = take 100 (replicate 100 (log_line ''up'') @ [log_line ''late''])"
    by simp
  have differ: "replicate 100 (log_line ''up'') @ [log_line ''down'']
     \<noteq> replicate 100 (log_line ''up'') @ [log_line ''late'']"
    by (simp add: log_line_def)
  show ?thesis
    using same differ
      generateReport_reads_first_100
        [where S = stringify_entries and parse = parse_sample and ai = "answer (Some ''[]'')"
           and logs = "replicate 100 (log_line ''up'') @ [log_line ''late'']"
           and logs' = "replicate 100 (log_line ''up'') @ [log_line ''down'']"]
    by simp
qed

end
